theory Spec2Isabelle
  imports Main
begin

section \<open>Single-active-session enforcement of the Masil user web app\<close>

text \<open>
  The development embeds three source functions:
  \<^item> \<open>handleLogin\<close> of the login form (credential check, session mint, role routing);
  \<^item> the \<open>ProtectedRoute\<close> component with its \<open>validateSession\<close> effect and its render;
  \<^item> \<open>handleLogout\<close> and the route table of the \<open>App\<close> component.

  Each \<open>await\<close> of the source is one sequential step of the model. What a remote
  collaborator answers is an explicit input of the step, and everything a step changes
  is a field of the record \<open>world\<close>.
\<close>

subsection \<open>Data\<close>

type_synonym user_id = string

text \<open>A row of the table \<open>users\<close>; the column \<open>latest_session_id\<close> is nullable.\<close>

record user_row =
  role :: string
  latest_session_id :: "string option"

type_synonym users_table = "user_id \<rightharpoonup> user_row"

text \<open>The three texts the login form passes to \<open>alert\<close>.\<close>

datatype alert_text =
    AuthError string          \<comment> \<open>\<open>error.error_description || error.message\<close>\<close>
  | SessionError              \<comment> \<open>the fixed text of the \<open>catch\<close> block of the mint\<close>
  | RoleLookupFailed string   \<comment> \<open>the fixed prefix followed by \<open>profileError.message\<close>\<close>

text \<open>The calls that leave the browser, in the order they are made.\<close>

datatype call =
    SignInWithPassword string string
  | PostUpdateSession user_id string
  | SelectUsers user_id
  | SignOut

record world =
  auth_session :: "user_id option"        \<comment> \<open>the session held by the auth client\<close>
  users :: users_table                    \<comment> \<open>the system of record\<close>
  localStorage :: "string \<rightharpoonup> string"
  location :: string                      \<comment> \<open>the router's current path\<close>
  alerts :: "alert_text list"
  calls :: "call list"

subsection \<open>Browser and router primitives\<close>

definition getItem :: "string \<Rightarrow> world \<Rightarrow> string option" where
  "getItem k w = localStorage w k"

definition setItem :: "string \<Rightarrow> string \<Rightarrow> world \<Rightarrow> world" where
  "setItem k v w = w\<lparr>localStorage := (localStorage w)(k \<mapsto> v)\<rparr>"

definition removeItem :: "string \<Rightarrow> world \<Rightarrow> world" where
  "removeItem k w = w\<lparr>localStorage := (localStorage w)(k := None)\<rparr>"

definition navigate :: "string \<Rightarrow> world \<Rightarrow> world" where
  "navigate p w = w\<lparr>location := p\<rparr>"

definition alert :: "alert_text \<Rightarrow> world \<Rightarrow> world" where
  "alert t w = w\<lparr>alerts := alerts w @ [t]\<rparr>"

definition record_call :: "call \<Rightarrow> world \<Rightarrow> world" where
  "record_call c w = w\<lparr>calls := calls w @ [c]\<rparr>"

subsection \<open>The hosted collaborators\<close>

text \<open>
  The authentication collaborator. \<open>signInWithPassword\<close> answers with a user or with an
  error; the answer is an input of the model, and an answer carrying a user and no error
  establishes the authenticated session. \<open>signOut\<close> drops that session.
\<close>

record auth_error =
  error_description :: "string option"
  message :: string

record signin_reply =
  user :: "user_id option"
  error :: "auth_error option"

definition signInWithPassword :: "signin_reply \<Rightarrow> string \<Rightarrow> string \<Rightarrow> world \<Rightarrow> world" where
  "signInWithPassword reply ph pw w =
     (let w1 = record_call (SignInWithPassword ph pw) w
      in case error reply of
           Some e \<Rightarrow> w1
         | None \<Rightarrow> (case user reply of
                      None \<Rightarrow> w1
                    | Some u \<Rightarrow> w1\<lparr>auth_session := Some u\<rparr>))"

definition signOut :: "world \<Rightarrow> world" where
  "signOut w = (record_call SignOut w)\<lparr>auth_session := None\<rparr>"

text \<open>
  The user-record collaborator: \<open>.from('users').select(...).eq('id', uid).single()\<close>.
  The flag says whether the request reaches the store. A request that does not, and a
  request that finds no row, both answer with no data and an error. Both queries of the
  source go through this function: the guard selects \<open>role, latest_session_id\<close>, the
  login form selects \<open>role\<close> and reads nothing else of the row.
\<close>

record select_reply =
  profile :: "user_row option"
  profileError :: "string option"

definition select_single :: "bool \<Rightarrow> users_table \<Rightarrow> user_id \<Rightarrow> select_reply" where
  "select_single reachable db uid =
     (if \<not> reachable then \<lparr>profile = None, profileError = Some ''request failed''\<rparr>
      else case db uid of
             None \<Rightarrow> \<lparr>profile = None, profileError = Some ''no rows returned''\<rparr>
           | Some r \<Rightarrow> \<lparr>profile = Some r, profileError = None\<rparr>)"

text \<open>
  What \<open>fetch\<close> does with the mint request: the promise rejects (the request itself
  failed), or it resolves with a response of some HTTP status. A resolved promise does not
  throw, whatever the status.
\<close>

datatype fetch_outcome = Rejects | Resolves nat

definition response_ok :: "fetch_outcome \<Rightarrow> bool" where
  "response_ok out = (case out of Rejects \<Rightarrow> False | Resolves st \<Rightarrow> 200 \<le> st \<and> st \<le> 299)"

text \<open>
  Modelled from the spec: the session-mint endpoint \<open>POST /api/users/update-session\<close>,
  whose server code is not among the sources. The spec describes it as "an HTTP endpoint
  accepting \<open>{ user_id, session_id }\<close> and persisting the mapping", whose write
  "overwrites the previous current token for that user, unconditionally", and for which
  "any non-success response" is a minting failure. So a success response stands for the
  write having been made on the user's record, and any other outcome for no write.
\<close>

definition write_current_token :: "users_table \<Rightarrow> user_id \<Rightarrow> string \<Rightarrow> users_table" where
  "write_current_token db uid sid =
     (case db uid of
        None \<Rightarrow> db
      | Some r \<Rightarrow> db(uid \<mapsto> r\<lparr>latest_session_id := Some sid\<rparr>))"

definition update_session_endpoint :: "fetch_outcome \<Rightarrow> user_id \<Rightarrow> string \<Rightarrow> world \<Rightarrow> world" where
  "update_session_endpoint out uid sid w =
     (let w1 = record_call (PostUpdateSession uid sid) w
      in if response_ok out then w1\<lparr>users := write_current_token (users w1) uid sid\<rparr> else w1)"

subsection \<open>The login form\<close>

record login_form =
  form_loading :: bool
  phone :: string
  password :: string

text \<open>What the surroundings answer during one run of \<open>handleLogin\<close>.\<close>

record login_env =
  signin :: signin_reply        \<comment> \<open>the answer of \<open>signInWithPassword\<close>\<close>
  newSessionId :: string        \<comment> \<open>the value of \<open>crypto.randomUUID()\<close>\<close>
  mint :: fetch_outcome         \<comment> \<open>the outcome of the \<open>fetch\<close> of the mint endpoint\<close>
  role_lookup :: bool           \<comment> \<open>whether the role query reaches the store\<close>

definition processedPhone :: "string \<Rightarrow> string" where
  "processedPhone ph = filter (\<lambda>c. c \<in> set ''0123456789'') ph"

definition formattedPhone :: "string \<Rightarrow> string" where
  "formattedPhone ph =
     ''+82'' @ (if take 1 (processedPhone ph) = ''0'' then drop 1 (processedPhone ph)
               else processedPhone ph)"

definition auth_error_text :: "auth_error \<Rightarrow> string" where
  "auth_error_text e =
     (case error_description e of
        None \<Rightarrow> message e
      | Some d \<Rightarrow> if d = [] then message e else d)"

text \<open>
  The part of \<open>handleLogin\<close> after the \<open>try\<close> block: the role query and the routing on
  its answer, then \<open>setLoading(false)\<close>.
\<close>

definition route_by_role :: "login_env \<Rightarrow> user_id \<Rightarrow> login_form \<Rightarrow> world \<Rightarrow> login_form \<times> world" where
  "route_by_role env u f w =
     (let w1 = record_call (SelectUsers u) w;
          reply = select_single (role_lookup env) (users w1) u
      in case profileError reply of
           Some m \<Rightarrow> (f\<lparr>form_loading := False\<rparr>, navigate ''/'' (alert (RoleLookupFailed m) w1))
         | None \<Rightarrow>
             (case profile reply of
                None \<Rightarrow> (f\<lparr>form_loading := False\<rparr>, w1)
              | Some p \<Rightarrow>
                  if role p = ''ADMIN''
                  then (f\<lparr>form_loading := False\<rparr>, navigate ''/admin'' w1)
                  else (f\<lparr>form_loading := False\<rparr>, navigate ''/'' w1)))"

text \<open>
  The \<open>try\<close> block: the mint request, then the write of the local copy. Only a rejected
  promise reaches \<open>catch\<close>; the response of a resolved one is not inspected.
\<close>

definition mint_session :: "login_env \<Rightarrow> user_id \<Rightarrow> login_form \<Rightarrow> world \<Rightarrow> login_form \<times> world" where
  "mint_session env u f w =
     (let w1 = update_session_endpoint (mint env) u (newSessionId env) w
      in case mint env of
           Rejects \<Rightarrow> (f\<lparr>form_loading := False\<rparr>, signOut (alert SessionError w1))
         | Resolves st \<Rightarrow> route_by_role env u f (setItem ''session_id'' (newSessionId env) w1))"

definition handleLogin :: "login_env \<Rightarrow> login_form \<Rightarrow> world \<Rightarrow> login_form \<times> world" where
  "handleLogin env f0 w =
     (let f = f0\<lparr>form_loading := True\<rparr>;
          w1 = signInWithPassword (signin env) (formattedPhone (phone f)) (password f) w
      in case error (signin env) of
           Some e \<Rightarrow> (f\<lparr>form_loading := False\<rparr>, alert (AuthError (auth_error_text e)) w1)
         | None \<Rightarrow>
             (case user (signin env) of
                None \<Rightarrow> (f\<lparr>form_loading := False\<rparr>, w1)
              | Some u \<Rightarrow> mint_session env u f w1))"

subsection \<open>The route guard\<close>

record route_state =
  isValidSession :: bool
  loading :: bool

definition initial_route_state :: route_state where
  "initial_route_state = \<lparr>isValidSession = False, loading = True\<rparr>"

text \<open>
  \<open>validateSession\<close>: the profile query, the read of the local copy, the strict
  comparison (\<open>null === null\<close> holds, so two absent tokens compare equal), the role check.
\<close>

definition validateSession :: "bool \<Rightarrow> bool \<Rightarrow> user_id \<Rightarrow> route_state \<Rightarrow> world \<Rightarrow> route_state \<times> world" where
  "validateSession adminOnly reachable uid c w =
     (let w1 = record_call (SelectUsers uid) w;
          prof = profile (select_single reachable (users w1) uid);
          localSessionId = getItem ''session_id'' w1;
          c1 = (case prof of
                  None \<Rightarrow> c\<lparr>isValidSession := False\<rparr>
                | Some p \<Rightarrow>
                    if latest_session_id p = localSessionId
                    then (if adminOnly \<and> role p \<noteq> ''ADMIN''
                          then c\<lparr>isValidSession := False\<rparr>
                          else c\<lparr>isValidSession := True\<rparr>)
                    else c\<lparr>isValidSession := False\<rparr>)
      in (c1\<lparr>loading := False\<rparr>, w1))"

text \<open>The body of the effect, run on mount and whenever \<open>session\<close> or \<open>adminOnly\<close> change.\<close>

definition route_effect :: "bool \<Rightarrow> bool \<Rightarrow> user_id option \<Rightarrow> route_state \<Rightarrow> world \<Rightarrow> route_state \<times> world" where
  "route_effect adminOnly reachable session c w =
     (case session of
        None \<Rightarrow> (c\<lparr>loading := False\<rparr>, w)
      | Some uid \<Rightarrow> validateSession adminOnly reachable uid c w)"

text \<open>
  What the component returns. In the last branch of the source the render calls
  \<open>supabase.auth.signOut()\<close> without waiting for it and returns the redirect; the model
  takes both as done when the render returns.
\<close>

datatype view = Checking | Children | NavigateLogin

definition render :: "route_state \<Rightarrow> world \<Rightarrow> view \<times> world" where
  "render c w =
     (if loading c then (Checking, w)
      else if isValidSession c then (Children, w)
      else (NavigateLogin, navigate ''/login'' (signOut w)))"

text \<open>One pass of the guard from a given component state: the effect, then the render.\<close>

definition guard_pass :: "bool \<Rightarrow> bool \<Rightarrow> user_id option \<Rightarrow> route_state \<Rightarrow> world \<Rightarrow> view \<times> world" where
  "guard_pass adminOnly reachable session c w =
     (let (c1, w1) = route_effect adminOnly reachable session c w in render c1 w1)"

text \<open>
  Mounting the guard: the first render shows the loading text (the initial state has
  \<open>loading\<close> set), then the effect runs and the component renders again.
\<close>

definition ProtectedRoute :: "bool \<Rightarrow> bool \<Rightarrow> user_id option \<Rightarrow> world \<Rightarrow> view \<times> world" where
  "ProtectedRoute adminOnly reachable session w =
     (let (v0, w0) = render initial_route_state w
      in guard_pass adminOnly reachable session initial_route_state w0)"

subsection \<open>The application shell\<close>

definition handleLogout :: "world \<Rightarrow> world" where
  "handleLogout w = navigate ''/login'' (removeItem ''session_id'' (signOut w))"



subsection \<open>Concrete states used in the examples\<close>

text \<open>
  A store with an administrator whose current token is \<open>T0\<close> and a regular user who has
  never had a token minted; a browser in front of it, given by the auth session it holds,
  the content of the slot \<open>session_id\<close> and the current path.
\<close>

definition example_users :: users_table where
  "example_users = [''u1'' \<mapsto> \<lparr>role = ''ADMIN'', latest_session_id = Some ''T0''\<rparr>,
                    ''u2'' \<mapsto> \<lparr>role = ''USER'', latest_session_id = None\<rparr>]"

definition browser :: "user_id option \<Rightarrow> string option \<Rightarrow> string \<Rightarrow> world" where
  "browser s tok path =
     \<lparr>auth_session = s, users = example_users,
      localStorage = (case tok of None \<Rightarrow> Map.empty | Some t \<Rightarrow> [''session_id'' \<mapsto> t]),
      location = path, alerts = [], calls = []\<rparr>"

definition example_form :: login_form where
  "example_form = \<lparr>form_loading = False, phone = ''010-1234-5678'', password = ''pw''\<rparr>"

text \<open>The administrator signs in; the fresh token is \<open>T9\<close>.\<close>

definition example_login :: "fetch_outcome \<Rightarrow> bool \<Rightarrow> login_env" where
  "example_login out look =
     \<lparr>signin = \<lparr>user = Some ''u1'', error = None\<rparr>, newSessionId = ''T9'',
      mint = out, role_lookup = look\<rparr>"

section \<open>Properties\<close>

lemmas prim_defs = getItem_def setItem_def removeItem_def navigate_def alert_def record_call_def
  signOut_def signInWithPassword_def select_single_def response_ok_def write_current_token_def
  update_session_endpoint_def

lemmas login_defs = handleLogin_def mint_session_def route_by_role_def

lemmas guard_defs = validateSession_def route_effect_def render_def guard_pass_def
  ProtectedRoute_def initial_route_state_def

lemmas example_defs = example_users_def browser_def example_form_def example_login_def

subsection \<open>Frame facts of the guard and of logout\<close>

lemma validateSession_reads_only:
  "snd (validateSession a n uid c w) = record_call (SelectUsers uid) w"
  by (simp add: validateSession_def Let_def)

lemma validateSession_loading: "\<not> loading (fst (validateSession a n uid c w))"
  by (simp add: validateSession_def Let_def)

lemma guard_pass_localStorage: "localStorage (snd (guard_pass a n s c w)) = localStorage w"
  by (simp add: guard_defs prim_defs Let_def split: option.splits)

lemma handleLogout_clears:
  "getItem ''session_id'' (handleLogout w) = None \<and> auth_session (handleLogout w) = None
   \<and> location (handleLogout w) = ''/login''"
  by (simp add: handleLogout_def prim_defs)

text \<open>
  Two passes of the guard in a row, the second with the session the auth client holds
  after the first, return the same view.
\<close>

lemma guard_twice_same_view:
  assumes "auth_session w = Some uid"
  shows "(let (c1, w1) = route_effect a n (Some uid) c w;
              (v1, w2) = render c1 w1;
              (c2, w3) = route_effect a n (auth_session w2) c1 w2;
              (v2, w4) = render c2 w3
          in v2 = v1 \<and> isValidSession c2 = isValidSession c1)"
  using assms by (simp add: guard_defs prim_defs Let_def split: option.splits)

subsection \<open>The validator\<close>

text \<open>
  Claim C2. Whenever the guard validates a session whose user record holds a current
  token different from the token cached in the browser, the decision is unauthorized,
  the render signs out of the auth client and navigates to \<open>/login\<close>. This holds from every
  component state, for every role requirement and whether or not the query is answered.
\<close>

theorem mismatch_unauthorized_signed_out:
  assumes "users w uid = Some r" and "latest_session_id r \<noteq> getItem ''session_id'' w"
  shows "\<not> isValidSession (fst (validateSession adminOnly reachable uid c w))
       \<and> fst (guard_pass adminOnly reachable (Some uid) c w) = NavigateLogin
       \<and> auth_session (snd (guard_pass adminOnly reachable (Some uid) c w)) = None
       \<and> location (snd (guard_pass adminOnly reachable (Some uid) c w)) = ''/login''
       \<and> calls (snd (guard_pass adminOnly reachable (Some uid) c w))
           = calls w @ [SelectUsers uid, SignOut]"
  using assms by (simp add: guard_defs prim_defs Let_def)

text \<open>
  The administrator's browser still caches \<open>T1\<close> while the store already holds \<open>T0\<close>.
\<close>

theorem mismatch_unauthorized_signed_out_witness:
  "users (browser (Some ''u1'') (Some ''T1'') ''/'') ''u1''
      = Some \<lparr>role = ''ADMIN'', latest_session_id = Some ''T0''\<rparr>
   \<and> latest_session_id \<lparr>role = ''ADMIN'', latest_session_id = Some ''T0''\<rparr>
      \<noteq> getItem ''session_id'' (browser (Some ''u1'') (Some ''T1'') ''/'')
   \<and> \<not> isValidSession (fst (validateSession False True ''u1'' initial_route_state
          (browser (Some ''u1'') (Some ''T1'') ''/'')))
   \<and> fst (guard_pass False True (Some ''u1'') initial_route_state
          (browser (Some ''u1'') (Some ''T1'') ''/'')) = NavigateLogin
   \<and> auth_session (snd (guard_pass False True (Some ''u1'') initial_route_state
          (browser (Some ''u1'') (Some ''T1'') ''/''))) = None
   \<and> location (snd (guard_pass False True (Some ''u1'') initial_route_state
          (browser (Some ''u1'') (Some ''T1'') ''/''))) = ''/login''"
proof -
  have h1: "users (browser (Some ''u1'') (Some ''T1'') ''/'') ''u1''
      = Some \<lparr>role = ''ADMIN'', latest_session_id = Some ''T0''\<rparr>"
    by (simp add: example_defs)
  have h2: "latest_session_id \<lparr>role = ''ADMIN'', latest_session_id = Some ''T0''\<rparr>
      \<noteq> getItem ''session_id'' (browser (Some ''u1'') (Some ''T1'') ''/'')"
    by (simp add: example_defs getItem_def)
  from mismatch_unauthorized_signed_out [OF h1 h2, of False True initial_route_state]
  show ?thesis using h1 h2 by blast
qed

text \<open>
  Claim C6. On a route that requires the administrator role, a fetched role other than
  \<open>ADMIN\<close> gives the decision unauthorized, and the render redirects to the login page;
  nothing is assumed about the two tokens.
\<close>

theorem admin_route_rejects_other_roles:
  assumes "users w uid = Some r" and "role r \<noteq> ''ADMIN''"
  shows "\<not> isValidSession (fst (validateSession True reachable uid c w))
       \<and> fst (guard_pass True reachable (Some uid) c w) = NavigateLogin"
  using assms by (simp add: guard_defs prim_defs Let_def)

text \<open>
  The regular user \<open>u2\<close> on the administrator route, with matching (both absent) tokens.
\<close>

theorem admin_route_rejects_other_roles_witness:
  "users (browser (Some ''u2'') None ''/admin'') ''u2''
      = Some \<lparr>role = ''USER'', latest_session_id = None\<rparr>
   \<and> role \<lparr>role = ''USER'', latest_session_id = None\<rparr> \<noteq> ''ADMIN''
   \<and> \<not> isValidSession (fst (validateSession True True ''u2'' initial_route_state
          (browser (Some ''u2'') None ''/admin'')))
   \<and> fst (guard_pass True True (Some ''u2'') initial_route_state
          (browser (Some ''u2'') None ''/admin'')) = NavigateLogin"
proof -
  have h1: "users (browser (Some ''u2'') None ''/admin'') ''u2''
      = Some \<lparr>role = ''USER'', latest_session_id = None\<rparr>"
    by (simp add: example_defs)
  have h2: "role \<lparr>role = ''USER'', latest_session_id = None\<rparr> \<noteq> ''ADMIN''"
    by simp
  from admin_route_rejects_other_roles [OF h1 h2, of True initial_route_state]
  show ?thesis using h1 h2 by blast
qed

text \<open>
  Claim C7. Mounting the guard without a session decides at once: the component renders
  the redirect to the login page, and the only call made is the sign-out of that render;
  no query of the table \<open>users\<close> is sent. The source tests the session alone, so this
  holds whatever the slot \<open>session_id\<close> contains.
\<close>

theorem no_session_fails_fast:
  "ProtectedRoute adminOnly reachable None w = (NavigateLogin, navigate ''/login'' (signOut w))
   \<and> calls (snd (ProtectedRoute adminOnly reachable None w)) = calls w @ [SignOut]"
  by (simp add: guard_defs prim_defs Let_def)



text \<open>
  Claim C9. No step of the guard writes the table \<open>users\<close>: not \<open>validateSession\<close>, not
  the effect, not the render. Neither do logout and the role routing of the login form.
  \<open>handleLogin\<close> changes the table in one way only, by the write of the mint endpoint
  for the user who signed in.
\<close>

theorem only_the_mint_writes_users:
  "users (snd (validateSession a n uid c w)) = users w
   \<and> users (snd (route_effect a n s c w)) = users w
   \<and> users (snd (render c w)) = users w
   \<and> users (snd (guard_pass a n s c w)) = users w
   \<and> users (snd (ProtectedRoute a n s w)) = users w
   \<and> users (handleLogout w) = users w
   \<and> users (snd (route_by_role env u f w)) = users w
   \<and> users (snd (handleLogin env f w)) =
       (case (error (signin env), user (signin env)) of
          (None, Some u) \<Rightarrow>
            if response_ok (mint env)
            then write_current_token (users w) u (newSessionId env) else users w
        | _ \<Rightarrow> users w)"
  by (simp add: guard_defs login_defs handleLogout_def prim_defs Let_def
      split: option.splits fetch_outcome.splits prod.splits)



subsection \<open>The login\<close>


text \<open>
  The half of the mint failure that the \<open>catch\<close> block covers: when the promise of the
  mint request rejects, the login alerts the user and signs out, and it leaves the table,
  the local storage and the path as they were.
\<close>

lemma rejected_mint_reverts_login:
  assumes "error (signin env) = None" and "user (signin env) = Some u" and "mint env = Rejects"
  shows "auth_session (snd (handleLogin env f w)) = None
       \<and> alerts (snd (handleLogin env f w)) = alerts w @ [SessionError]
       \<and> users (snd (handleLogin env f w)) = users w
       \<and> localStorage (snd (handleLogin env f w)) = localStorage w
       \<and> location (snd (handleLogin env f w)) = location w"
  using assms by (simp add: login_defs prim_defs Let_def)

text \<open>
  Claim C3. The credential check answers with a user and no error, the mint endpoint
  answers with a success status, and the user has a record. Then, when \<open>handleLogin\<close>
  returns, the slot \<open>session_id\<close> holds the fresh token, the user's record holds the same
  token, and the authenticated session is that of the user.
\<close>

theorem successful_login_tokens_agree:
  assumes "error (signin env) = None" and "user (signin env) = Some u"
    and "response_ok (mint env)" and "users w u = Some r"
  shows "getItem ''session_id'' (snd (handleLogin env f w)) = Some (newSessionId env)
       \<and> map_option latest_session_id (users (snd (handleLogin env f w)) u)
           = Some (getItem ''session_id'' (snd (handleLogin env f w)))
       \<and> auth_session (snd (handleLogin env f w)) = Some u"
  using assms
  by (cases "mint env") (simp_all add: login_defs prim_defs Let_def split: option.splits)

text \<open>The administrator signs in from the login page and the endpoint answers 200.\<close>

theorem successful_login_tokens_agree_witness:
  "error (signin (example_login (Resolves 200) True)) = None
   \<and> user (signin (example_login (Resolves 200) True)) = Some ''u1''
   \<and> response_ok (mint (example_login (Resolves 200) True))
   \<and> users (browser None None ''/login'') ''u1''
       = Some \<lparr>role = ''ADMIN'', latest_session_id = Some ''T0''\<rparr>
   \<and> getItem ''session_id''
       (snd (handleLogin (example_login (Resolves 200) True) example_form
              (browser None None ''/login''))) = Some ''T9''
   \<and> map_option latest_session_id
       (users (snd (handleLogin (example_login (Resolves 200) True) example_form
                     (browser None None ''/login''))) ''u1'') = Some (Some ''T9'')"
proof -
  have h1: "error (signin (example_login (Resolves 200) True)) = None"
    by (simp add: example_defs)
  have h2: "user (signin (example_login (Resolves 200) True)) = Some ''u1''"
    by (simp add: example_defs)
  have h3: "response_ok (mint (example_login (Resolves 200) True))"
    by (simp add: example_defs response_ok_def)
  have h4: "users (browser None None ''/login'') ''u1''
       = Some \<lparr>role = ''ADMIN'', latest_session_id = Some ''T0''\<rparr>"
    by (simp add: example_defs)
  have n: "newSessionId (example_login (Resolves 200) True) = ''T9''"
    by (simp add: example_defs)
  from successful_login_tokens_agree [OF h1 h2 h3 h4, of example_form]
  have c: "getItem ''session_id''
       (snd (handleLogin (example_login (Resolves 200) True) example_form
              (browser None None ''/login''))) = Some ''T9''
     \<and> map_option latest_session_id
       (users (snd (handleLogin (example_login (Resolves 200) True) example_form
                     (browser None None ''/login''))) ''u1'') = Some (Some ''T9'')"
    unfolding n by metis
  show ?thesis using h1 h2 h3 h4 c by blast
qed

text \<open>
  Claim C1. The claim fails on the code for a mint endpoint that answers with a
  non-success status. The administrator signs in and the endpoint answers 500: the
  promise of \<open>fetch\<close> resolves, so the \<open>catch\<close> block is not entered. \<open>handleLogin\<close>
  caches the fresh token \<open>T9\<close>, raises no alert, makes no sign-out call, keeps the
  authenticated session and navigates to the administrator page, while the record still
  holds the old token \<open>T0\<close>.
\<close>

theorem non_success_response_not_treated_as_failure:
  "auth_session (snd (handleLogin (example_login (Resolves 500) True) example_form
                       (browser None None ''/login''))) = Some ''u1''
   \<and> alerts (snd (handleLogin (example_login (Resolves 500) True) example_form
                       (browser None None ''/login''))) = []
   \<and> calls (snd (handleLogin (example_login (Resolves 500) True) example_form
                       (browser None None ''/login'')))
       = [SignInWithPassword ''+821012345678'' ''pw'', PostUpdateSession ''u1'' ''T9'',
          SelectUsers ''u1'']
   \<and> getItem ''session_id'' (snd (handleLogin (example_login (Resolves 500) True) example_form
                       (browser None None ''/login''))) = Some ''T9''
   \<and> users (snd (handleLogin (example_login (Resolves 500) True) example_form
                       (browser None None ''/login''))) ''u1''
       = Some \<lparr>role = ''ADMIN'', latest_session_id = Some ''T0''\<rparr>
   \<and> location (snd (handleLogin (example_login (Resolves 500) True) example_form
                       (browser None None ''/login''))) = ''/admin''"
  by (simp add: login_defs prim_defs example_defs processedPhone_def formattedPhone_def Let_def)

subsection \<open>Login followed by the guard of the landing page\<close>







subsection \<open>Discarding the cached token\<close>

text \<open>
  Claim C4. The claim fails on the code in its second case. The administrator's browser
  caches \<open>T1\<close> while the store holds \<open>T0\<close>; the guard decides unauthorized, signs out and
  redirects, and the slot \<open>session_id\<close> still holds \<open>T1\<close> afterwards. (The first case
  holds: see \<open>handleLogout_clears\<close>. That the guard never touches the local storage is
  \<open>guard_pass_localStorage\<close>.)
\<close>

theorem validation_failure_keeps_cached_token:
  "fst (ProtectedRoute False True (Some ''u1'') (browser (Some ''u1'') (Some ''T1'') ''/''))
     = NavigateLogin
   \<and> auth_session (snd (ProtectedRoute False True (Some ''u1'')
                          (browser (Some ''u1'') (Some ''T1'') ''/''))) = None
   \<and> getItem ''session_id'' (snd (ProtectedRoute False True (Some ''u1'')
                          (browser (Some ''u1'') (Some ''T1'') ''/''))) = Some ''T1''
   \<and> getItem ''session_id'' (handleLogout (browser (Some ''u1'') (Some ''T1'') ''/'')) = None"
  by (simp add: guard_defs handleLogout_def prim_defs example_defs Let_def)

end
